theory Spec2Isabelle
  imports Main
begin

section \<open>JavaScript values\<close>

text \<open>
  The adapter of \<^verbatim>\<open>src/lib/index.js\<close> handles dynamically typed values: option fields,
  paths, image indices. The primitive values are modelled; \<open>Num\<close> carries the
  integer-valued numbers of magnitude below \<open>10\<^sup>2\<^sup>1\<close>, which a template literal prints in
  plain decimal digits. A \<open>string\<close> stands for a JavaScript string, one \<open>char\<close> for each
  code unit (code units below 256).
\<close>

datatype jsval = Undefined | Null | Bool bool | Num int | Str string

text \<open>Truthiness, as \<^verbatim>\<open>if (v)\<close> and \<^verbatim>\<open>!v\<close> test it.\<close>

fun truthy :: "jsval \<Rightarrow> bool" where
  "truthy Undefined = False"
| "truthy Null = False"
| "truthy (Bool b) = b"
| "truthy (Num n) = (n \<noteq> 0)"
| "truthy (Str s) = (s \<noteq> [])"

fun digits :: "nat \<Rightarrow> string" where
  "digits n =
     (if n < 10 then [''0123456789'' ! n]
      else digits (n div 10) @ [''0123456789'' ! (n mod 10)])"

declare digits.simps [simp del]

text \<open>String conversion, as a template literal \<^verbatim>\<open>`${v}`\<close> performs it.\<close>

fun toString :: "jsval \<Rightarrow> string" where
  "toString Undefined = ''undefined''"
| "toString Null = ''null''"
| "toString (Bool b) = (if b then ''true'' else ''false'')"
| "toString (Num n) = (if n < 0 then ''-'' @ digits (nat (- n)) else digits (nat n))"
| "toString (Str s) = s"

text \<open>
  An object is a finite map from property names to values; reading a property that is
  not there gives \<open>Undefined\<close>.
\<close>

type_synonym jsobj = "string \<rightharpoonup> jsval"

definition get :: "jsobj \<Rightarrow> string \<Rightarrow> jsval" where
  "get obj k = (case obj k of None \<Rightarrow> Undefined | Some v \<Rightarrow> v)"

text \<open>An object literal filled by assignments, in the order of the list.\<close>

definition assign :: "jsobj \<Rightarrow> (string \<times> jsval) list \<Rightarrow> jsobj" where
  "assign obj kvs = foldl (\<lambda>m kv. m(fst kv \<mapsto> snd kv)) obj kvs"

text \<open>\<^verbatim>\<open>Array.prototype.includes\<close> and \<^verbatim>\<open>Array.prototype.push\<close>.\<close>

fun includes_elem :: "jsval list \<Rightarrow> jsval \<Rightarrow> bool" where
  "includes_elem [] v = False"
| "includes_elem (x # xs) v = (x = v \<or> includes_elem xs v)"

definition push :: "'a list \<Rightarrow> 'a \<Rightarrow> 'a list" where
  "push xs x = xs @ [x]"

section \<open>Exceptions and the external process\<close>

text \<open>
  \<open>Error m\<close> is \<^verbatim>\<open>new Error(m)\<close>, \<open>SyntaxError p\<close> is what \<^verbatim>\<open>new RegExp(p, 'g')\<close> throws
  on an invalid pattern \<open>p\<close>, \<open>ProcessError c m\<close> is an error object raised by the process
  primitive, with its \<^verbatim>\<open>code\<close> property \<open>c\<close> and its message \<open>m\<close> (a failed spawn has the
  code \<^verbatim>\<open>'ENOENT'\<close>), and \<open>Raised s\<close> is a string that the primitive raises in place of an
  error object (\<^verbatim>\<open>'rc=1'\<close> for the exit status 1). Reading \<^verbatim>\<open>code\<close> on an error without that
  property, or on a string, gives \<open>Undefined\<close>.
\<close>

datatype exn = Error string | SyntaxError string | ProcessError jsval string | Raised string

fun code :: "exn \<Rightarrow> jsval" where
  "code (Error m) = Undefined"
| "code (SyntaxError p) = Undefined"
| "code (ProcessError c m) = c"
| "code (Raised s) = Undefined"

datatype encoding = Utf16le | Utf8

record invocation =
  bin :: string
  argv :: "jsval list"
  enc :: encoding

text \<open>
  The primitive \<^verbatim>\<open>xProcess.spawn\<close> belongs to another package: it is a parameter. On an
  invocation it hands the chunks of standard output to the callback, in order, and then
  either completes or raises an exception into the generator.
\<close>

datatype proc_outcome = Completed "string list" | Failed "string list" exn

record wim =
  imagexBin :: string
  xProcess :: "invocation \<Rightarrow> proc_outcome"

definition Wim :: "(invocation \<Rightarrow> proc_outcome) \<Rightarrow> string option \<Rightarrow> wim" where
  "Wim xp imagexBinArg =
     \<lparr>imagexBin = (case imagexBinArg of None \<Rightarrow> ''wimlib-imagex'' | Some b \<Rightarrow> b),
      xProcess = xp\<rparr>"

text \<open>A process that answers every invocation with the same outcome.\<close>

definition always :: "proc_outcome \<Rightarrow> invocation \<Rightarrow> proc_outcome" where
  "always r req = r"

section \<open>The cleanup pass\<close>

text \<open>
  \<^verbatim>\<open>new RegExp(output[1], 'g')\<close> reads one character as a pattern. Without the unicode flag
  a one-character pattern is a syntax error for \<^verbatim>\<open>\ * + ? ( ) [\<close>, matches every character
  but a line terminator for \<^verbatim>\<open>.\<close>, matches only the empty string for \<^verbatim>\<open>^ $ |\<close>, and
  matches the character itself otherwise. An undefined pattern is the empty pattern.
\<close>

datatype regexp = Literal char | AnyChar | EmptyMatch

fun RegExp :: "char option \<Rightarrow> exn + regexp" where
  "RegExp None = Inr EmptyMatch"
| "RegExp (Some c) =
     (if c \<in> set [CHR 0x5C, CHR ''*'', CHR ''+'', CHR ''?'', CHR ''('', CHR '')'', CHR ''['']
      then Inl (SyntaxError [c])
      else if c = CHR ''.'' then Inr AnyChar
      else if c \<in> set [CHR ''^'', CHR ''$'', CHR ''|''] then Inr EmptyMatch
      else Inr (Literal c))"

text \<open>\<^verbatim>\<open>s.replace(re, '')\<close> for a global expression \<open>re\<close>.\<close>

fun replace_all :: "regexp \<Rightarrow> string \<Rightarrow> string" where
  "replace_all (Literal c) s = filter (\<lambda>x. x \<noteq> c) s"
| "replace_all AnyChar s = filter (\<lambda>x. x \<in> set [CHR 0x0A, CHR 0x0D]) s"
| "replace_all EmptyMatch s = s"

text \<open>\<^verbatim>\<open>s[i]\<close>: undefined out of range.\<close>

definition char_at :: "string \<Rightarrow> nat \<Rightarrow> char option" where
  "char_at s i = (if i < length s then Some (s ! i) else None)"

definition substring :: "string \<Rightarrow> nat \<Rightarrow> string" where
  "substring s n = drop n s"

definition cleanup :: "string \<Rightarrow> exn + string" where
  "cleanup output =
     (let output = substring output 2 in
      case RegExp (char_at output 1) of
        Inl ex \<Rightarrow> Inl ex
      | Inr re \<Rightarrow> Inr (replace_all re output))"

section \<open>Invoking the external binary\<close>

text \<open>
  What \<^verbatim>\<open>_spawn\<close> returns: the output text, or the exception it caught. The continuation
  that the generator wrapper appends to the arguments is popped again before the
  arguments are used, and it is not the string \<^verbatim>\<open>'--xml'\<close>; \<open>args\<close> are the arguments
  without it.
\<close>

datatype spawn_value = Output string | Caught exn

fun out_code :: "spawn_value \<Rightarrow> jsval" where
  "out_code (Output s) = Undefined"
| "out_code (Caught ex) = code ex"

fun out_truthy :: "spawn_value \<Rightarrow> bool" where
  "out_truthy (Output s) = (s \<noteq> [])"
| "out_truthy (Caught (Raised s)) = (s \<noteq> [])"
| "out_truthy (Caught ex) = True"

definition spawn :: "string \<Rightarrow> wim \<Rightarrow> string \<Rightarrow> jsval list \<Rightarrow> invocation \<times> spawn_value" where
  "spawn platform w action args =
     (let outputIsXml = includes_elem args (Str ''--xml'');
          encoding = (if platform \<noteq> ''win32'' \<and> outputIsXml then Utf16le else Utf8);
          req = \<lparr>bin = imagexBin w, argv = Str action # args, enc = encoding\<rparr>
      in (req,
          case xProcess w req of
            Failed chunks ex \<Rightarrow> Caught ex
          | Completed chunks \<Rightarrow>
              (let output = foldl (@) [] chunks in
               if encoding = Utf8 \<and> outputIsXml then
                 (case cleanup output of Inl ex \<Rightarrow> Caught ex | Inr output \<Rightarrow> Output output)
               else Output output)))"

section \<open>Building the option flags\<close>

definition argsOptionsBuilder :: "jsobj \<Rightarrow> string list" where
  "argsOptionsBuilder options =
     (let args = [];
          args = (if truthy (get options ''destDir'')
                  then push args (''--dest-dir='' @ toString (get options ''destDir''))
                  else args);
          args = (if truthy (get options ''toStdout'') then push args ''--to-stdout'' else args);
          args = (if truthy (get options ''sourceList'') then push args ''--source-list'' else args);
          args = (if truthy (get options ''compress'')
                  then push args (''--compress='' @ toString (get options ''compress''))
                  else args);
          args = (if truthy (get options ''noAcls'') then push args ''--no-acls'' else args);
          args = (if truthy (get options ''unixData'') then push args ''--unix-data'' else args);
          args = (if truthy (get options ''rebuild'') then push args ''--rebuild'' else args);
          args = (if truthy (get options ''check'') then push args ''--check'' else args);
          args = (if truthy (get options ''noGlobs'') then push args ''--no-globs'' else args)
      in args)"

section \<open>The public operations\<close>

text \<open>
  A call either throws (\<open>Inl\<close>) or returns, and makes subprocess invocations on the way.
  \<open>extract\<close> and \<open>update\<close> write to the options object they are given: they also return
  its state after the call. An options argument that is missing or falsy is \<open>None\<close>.
\<close>

record 'a call =
  returned :: "exn + 'a"
  spawned :: "invocation list"

definition capture :: "string \<Rightarrow> wim \<Rightarrow> jsval \<Rightarrow> jsval \<Rightarrow> jsobj option \<Rightarrow> unit call" where
  "capture platform w outputWim source options =
     (let options = (case options of None \<Rightarrow> Map.empty | Some opts \<Rightarrow> opts);
          args = argsOptionsBuilder options;
          (req, out) = spawn platform w ''capture'' ([source, outputWim] @ map Str args)
      in \<lparr>returned = Inr (), spawned = [req]\<rparr>)"

definition extract_op ::
  "string \<Rightarrow> wim \<Rightarrow> jsval \<Rightarrow> jsval \<Rightarrow> jsval \<Rightarrow> jsobj option \<Rightarrow> jsobj \<times> spawn_value call" where
  "extract_op platform w inputWim inputPath outputDir options =
     (let options = (case options of None \<Rightarrow> Map.empty | Some opts \<Rightarrow> opts);
          options = (if \<not> truthy (get options ''image'')
                     then options(''image'' \<mapsto> Num 1) else options);
          options = (if truthy outputDir then options(''destDir'' \<mapsto> outputDir) else options);
          args = argsOptionsBuilder options;
          (req, out) = spawn platform w ''extract''
                         ([inputWim, get options ''image'', inputPath] @ map Str args)
      in (options, \<lparr>returned = Inr out, spawned = [req]\<rparr>))"


text \<open>
  A command argument that is missing or falsy is \<open>None\<close>. The template literal of
  \<^verbatim>\<open>update\<close> puts the input and the output between double quotes, \<open>CHR 0x22\<close>.
\<close>

definition update ::
  "string \<Rightarrow> wim \<Rightarrow> jsval \<Rightarrow> jsobj option \<Rightarrow> jsobj option \<Rightarrow> jsobj \<times> unit call" where
  "update platform w inputWim command options =
     (let options = (case options of None \<Rightarrow> Map.empty | Some opts \<Rightarrow> opts);
          options = (if \<not> truthy (get options ''image'')
                     then options(''image'' \<mapsto> Num 1) else options)
      in case command of
           None \<Rightarrow> (options, \<lparr>returned = Inl (Error ''A command must be specified''),
                              spawned = []\<rparr>)
         | Some cmd \<Rightarrow>
             (if get cmd ''type'' = Str ''add'' \<or> get cmd ''type'' = Str ''delete''
                 \<or> get cmd ''type'' = Str ''rename''
              then
                (let command = toString (get cmd ''type'') @ [CHR '' '', CHR 0x22]
                       @ toString (get cmd ''input'') @ [CHR 0x22, CHR '' '', CHR 0x22]
                       @ toString (get cmd ''output'') @ [CHR 0x22];
                     args = argsOptionsBuilder options;
                     (req, out) = spawn platform w ''update''
                                    ([inputWim, get options ''image'', Str command] @ map Str args)
                 in (options, \<lparr>returned = Inr (), spawned = [req]\<rparr>))
              else
                (options,
                 \<lparr>returned = Inl (Error (''command '' @ toString (get cmd ''type'')
                                           @ '' not supported'')),
                  spawned = []\<rparr>)))"

definition verify :: "string \<Rightarrow> wim \<Rightarrow> jsval \<Rightarrow> unit call" where
  "verify platform w inputWim =
     (let (req, out) = spawn platform w ''verify'' [inputWim] in
      if truthy (out_code out)
      then \<lparr>returned = Inl (Error (''Integrity of '' @ toString inputWim
                                    @ '' file seems compromised'')),
            spawned = [req]\<rparr>
      else \<lparr>returned = Inr (), spawned = [req]\<rparr>)"

definition dir :: "string \<Rightarrow> wim \<Rightarrow> jsval \<Rightarrow> spawn_value call" where
  "dir platform w inputWim =
     (let (req, out) = spawn platform w ''dir'' [inputWim] in
      if \<not> out_truthy out \<or> truthy (out_code out)
      then \<lparr>returned = Inl (Error (''Cannot retrieve WIM directories and files from ''
                                    @ toString inputWim)),
            spawned = [req]\<rparr>
      else \<lparr>returned = Inr out, spawned = [req]\<rparr>)"

section \<open>The flag table of the specification\<close>

text \<open>
  The specification names the options and their flags in one fixed order: destination
  directory, standard output, source list, compression, no ACLs, Unix data, rebuild,
  check, no globs. \<open>spec_flag_order\<close> is that table, written from the specification, to
  be compared with \<open>argsOptionsBuilder\<close>.
\<close>

definition spec_flag_order :: "jsobj \<Rightarrow> (string \<times> string) list" where
  "spec_flag_order options =
     [(''destDir'', ''--dest-dir='' @ toString (get options ''destDir'')),
      (''toStdout'', ''--to-stdout''),
      (''sourceList'', ''--source-list''),
      (''compress'', ''--compress='' @ toString (get options ''compress'')),
      (''noAcls'', ''--no-acls''),
      (''unixData'', ''--unix-data''),
      (''rebuild'', ''--rebuild''),
      (''check'', ''--check''),
      (''noGlobs'', ''--no-globs'')]"

section \<open>Stand-ins for the external packages\<close>


section \<open>Facts about the invocation\<close>

lemma includes_elem_set: "includes_elem xs v = (v \<in> set xs)"
  by (induction xs) auto

lemma foldl_append_acc: "foldl (@) acc chunks = acc @ concat chunks"
  by (induction chunks arbitrary: acc) simp_all

lemma spawn_request:
  "fst (spawn platform w action args) =
     \<lparr>bin = imagexBin w, argv = Str action # args,
      enc = (if platform \<noteq> ''win32'' \<and> includes_elem args (Str ''--xml'')
             then Utf16le else Utf8)\<rparr>"
  by (simp add: spawn_def Let_def)

lemma spawn_failed:
  "xProcess w (fst (spawn platform w action args)) = Failed chunks ex \<Longrightarrow>
   snd (spawn platform w action args) = Caught ex"
  by (simp add: spawn_def Let_def)

lemma spawn_completed:
  "xProcess w (fst (spawn platform w action args)) = Completed chunks \<Longrightarrow>
   snd (spawn platform w action args) =
     (if platform = ''win32'' \<and> includes_elem args (Str ''--xml'')
      then (case cleanup (concat chunks) of Inl ex \<Rightarrow> Caught ex | Inr output \<Rightarrow> Output output)
      else Output (concat chunks))"
  by (auto simp add: spawn_def Let_def foldl_append_acc)

lemma cleanup_literal:
  "RegExp (Some n) = Inr (Literal n) \<Longrightarrow>
   cleanup (j1 # j2 # c # n # rest) = Inr (filter (\<lambda>x. x \<noteq> n) (c # rest))"
  by (simp add: cleanup_def substring_def char_at_def)

section \<open>The capture encoding\<close>

text \<open>
  C2. The encoding handed to the process primitive is UTF-16LE exactly when the platform
  is not \<^verbatim>\<open>win32\<close> and the arguments contain \<^verbatim>\<open>'--xml'\<close>; in every other case it is
  UTF-8.
\<close>

theorem spawn_encoding:
  "enc (fst (spawn platform w action args)) =
     (if platform \<noteq> ''win32'' \<and> Str ''--xml'' \<in> set args then Utf16le else Utf8)"
  by (simp add: spawn_request includes_elem_set)

theorem spawn_encoding_witness:
  "enc (fst (spawn ''linux'' (Wim (always (Completed [])) None) ''info''
              [Str ''--xml'', Str ''a.wim''])) = Utf16le
   \<and> enc (fst (spawn ''win32'' (Wim (always (Completed [])) None) ''info''
              [Str ''--xml'', Str ''a.wim''])) = Utf8
   \<and> enc (fst (spawn ''linux'' (Wim (always (Completed [])) None) ''dir''
              [Str ''a.wim''])) = Utf8"
  using spawn_encoding [of "''linux''" "Wim (always (Completed [])) None" "''info''"
          "[Str ''--xml'', Str ''a.wim'']"]
     spawn_encoding [of "''win32''" "Wim (always (Completed [])) None" "''info''"
          "[Str ''--xml'', Str ''a.wim'']"]
     spawn_encoding [of "''linux''" "Wim (always (Completed [])) None" "''dir''"
          "[Str ''a.wim'']"]
  by simp

section \<open>The cleanup of a UTF-8 capture of XML\<close>

text \<open>
  C1, as stated, fails. The claim takes the first character of the truncated buffer as
  the noise marker; the code reads \<^verbatim>\<open>output[1]\<close>, the second one. On \<^verbatim>\<open>win32\<close>, for the
  buffer \<^verbatim>\<open>xyNaNbNc\<close> (junk \<^verbatim>\<open>xy\<close>, third character \<^verbatim>\<open>N\<close> repeated), the result is
  \<^verbatim>\<open>NNbNc\<close>: every \<^verbatim>\<open>a\<close> is gone and every \<^verbatim>\<open>N\<close> is still there.
\<close>

theorem cleanup_first_char_counterexample:
  "snd (spawn ''win32'' (Wim (always (Completed [''xyNa'', ''NbNc''])) None) ''info''
          [Str ''--xml'', Str ''a.wim''])
     = Output ''NNbNc'' \<and> CHR ''N'' \<in> set ''NNbNc''"
  by (simp add: spawn_def Wim_def always_def cleanup_def substring_def char_at_def)

text \<open>
  C1, amended. For every invocation that chose UTF-8 capture for an XML request and
  completed, the accumulated buffer loses its first two characters, and then every
  occurrence of the second character of the truncated buffer (the fourth of the buffer)
  is deleted from the truncated buffer, when that character is one that a regular
  expression reads literally; the result contains no occurrence of it.
\<close>

theorem spawn_cleanup_second_char:
  assumes "enc (fst (spawn platform w action args)) = Utf8"
    and "includes_elem args (Str ''--xml'')"
    and "xProcess w (fst (spawn platform w action args)) = Completed chunks"
    and "concat chunks = j1 # j2 # c # n # rest"
    and "RegExp (Some n) = Inr (Literal n)"
  shows "snd (spawn platform w action args) = Output (filter (\<lambda>x. x \<noteq> n) (c # rest))
         \<and> n \<notin> set (filter (\<lambda>x. x \<noteq> n) (c # rest))"
proof -
  from assms(1,2) have win: "platform = ''win32''"
    by (simp add: spawn_request split: if_splits)
  from spawn_completed [OF assms(3)] win assms(2,4) cleanup_literal [OF assms(5)]
  have "snd (spawn platform w action args) = Output (filter (\<lambda>x. x \<noteq> n) (c # rest))"
    by simp
  then show ?thesis by simp
qed

theorem spawn_cleanup_second_char_witness:
  "snd (spawn ''win32'' (Wim (always (Completed [''xy<N'', ''aNbN>''])) None) ''info''
          [Str ''--xml'', Str ''a.wim''])
     = Output ''<ab>'' \<and> CHR ''N'' \<notin> set ''<ab>''"
  using spawn_cleanup_second_char [of "''win32''"
      "Wim (always (Completed [''xy<N'', ''aNbN>''])) None" "''info''"
      "[Str ''--xml'', Str ''a.wim'']" "[''xy<N'', ''aNbN>'']"
      "CHR ''x''" "CHR ''y''" "CHR ''<''" "CHR ''N''" "''aNbN>''"]
  by (simp add: spawn_request Wim_def always_def)

section \<open>Facts about the cleanup pass\<close>

lemma length_replace_all: "length (replace_all re s) \<le> length s"
  by (cases re) simp_all

lemma cleanup_fixed: "(cleanup t = Inr t) = (t = [])"
proof
  assume "cleanup t = Inr t"
  then have "\<exists>re. replace_all re (drop 2 t) = t"
    by (auto simp add: cleanup_def substring_def Let_def split: sum.splits)
  then obtain re where eq: "replace_all re (drop 2 t) = t" ..
  have "length (replace_all re (drop 2 t)) \<le> length (drop 2 t)"
    by (rule length_replace_all)
  then have "length t \<le> length (drop 2 t)"
    by (simp only: eq)
  then have "length t \<le> length t - 2" by (simp only: length_drop)
  then have "length t = 0" by arith
  then show "t = []" by simp
next
  assume "t = []"
  then show "cleanup t = Inr t"
    by (simp add: cleanup_def substring_def char_at_def)
qed

section \<open>Facts about the operations\<close>


lemma verify_unfold:
  "verify platform w inputWim =
     \<lparr>returned = (if truthy (out_code (snd (spawn platform w ''verify'' [inputWim])))
                  then Inl (Error (''Integrity of '' @ toString inputWim @ '' file seems compromised''))
                  else Inr ()),
      spawned = [fst (spawn platform w ''verify'' [inputWim])]\<rparr>"
  by (simp add: verify_def split_beta)


lemma dir_unfold:
  "dir platform w inputWim =
     \<lparr>returned = (if \<not> out_truthy (snd (spawn platform w ''dir'' [inputWim]))
                     \<or> truthy (out_code (snd (spawn platform w ''dir'' [inputWim])))
                  then Inl (Error (''Cannot retrieve WIM directories and files from '' @ toString inputWim))
                  else Inr (snd (spawn platform w ''dir'' [inputWim]))),
      spawned = [fst (spawn platform w ''dir'' [inputWim])]\<rparr>"
  by (simp add: dir_def split_beta)

lemma extract_op_unfold:
  "extract_op platform w inputWim inputPath outputDir options =
     (let opts = (case options of None \<Rightarrow> Map.empty | Some opts \<Rightarrow> opts);
          opts = (if \<not> truthy (get opts ''image'') then opts(''image'' \<mapsto> Num 1) else opts);
          opts = (if truthy outputDir then opts(''destDir'' \<mapsto> outputDir) else opts);
          args = [inputWim, get opts ''image'', inputPath] @ map Str (argsOptionsBuilder opts)
      in (opts, \<lparr>returned = Inr (snd (spawn platform w ''extract'' args)),
                 spawned = [fst (spawn platform w ''extract'' args)]\<rparr>))"
  by (simp add: extract_op_def split_beta Let_def)

lemma update_unfold:
  "update platform w inputWim command options =
     (let opts = (case options of None \<Rightarrow> Map.empty | Some opts \<Rightarrow> opts);
          opts = (if \<not> truthy (get opts ''image'') then opts(''image'' \<mapsto> Num 1) else opts)
      in case command of
           None \<Rightarrow> (opts, \<lparr>returned = Inl (Error ''A command must be specified''), spawned = []\<rparr>)
         | Some cmd \<Rightarrow>
             (if get cmd ''type'' \<in> {Str ''add'', Str ''delete'', Str ''rename''}
              then
                (let args = [inputWim, get opts ''image'',
                             Str (toString (get cmd ''type'') @ [CHR '' '', CHR 0x22]
                                  @ toString (get cmd ''input'') @ [CHR 0x22, CHR '' '', CHR 0x22]
                                  @ toString (get cmd ''output'') @ [CHR 0x22])]
                            @ map Str (argsOptionsBuilder opts)
                 in (opts, \<lparr>returned = Inr (), spawned = [fst (spawn platform w ''update'' args)]\<rparr>))
              else
                (opts, \<lparr>returned = Inl (Error (''command '' @ toString (get cmd ''type'')
                                                @ '' not supported'')),
                        spawned = []\<rparr>)))"
  by (simp add: update_def split_beta Let_def split: option.splits)

section \<open>Facts about the argument builder\<close>

lemma push_if: "(if b then push xs x else xs) = xs @ (if b then [x] else [])"
  by (simp add: push_def)

lemma argsOptionsBuilder_pieces:
  "argsOptionsBuilder options =
     (if truthy (get options ''destDir'')
      then [''--dest-dir='' @ toString (get options ''destDir'')] else [])
     @ (if truthy (get options ''toStdout'') then [''--to-stdout''] else [])
     @ (if truthy (get options ''sourceList'') then [''--source-list''] else [])
     @ (if truthy (get options ''compress'')
        then [''--compress='' @ toString (get options ''compress'')] else [])
     @ (if truthy (get options ''noAcls'') then [''--no-acls''] else [])
     @ (if truthy (get options ''unixData'') then [''--unix-data''] else [])
     @ (if truthy (get options ''rebuild'') then [''--rebuild''] else [])
     @ (if truthy (get options ''check'') then [''--check''] else [])
     @ (if truthy (get options ''noGlobs'') then [''--no-globs''] else [])"
  unfolding argsOptionsBuilder_def Let_def push_if by simp

lemma filter_cons_if: "map snd (filter P (x # xs)) = (if P x then [snd x] else []) @ map snd (filter P xs)"
  by simp

lemma argsOptionsBuilder_table:
  "argsOptionsBuilder options =
     map snd (filter (\<lambda>kf. truthy (get options (fst kf))) (spec_flag_order options))"
  unfolding argsOptionsBuilder_pieces spec_flag_order_def filter_cons_if
  by simp

lemma assign_map_of: "assign m kvs = m ++ map_of (rev kvs)"
  unfolding assign_def
  by (induction kvs arbitrary: m) (simp_all add: map_add_upd_left)

lemma assign_order:
  assumes "distinct (map fst kvs)" "distinct (map fst kvs')" "set kvs = set kvs'"
  shows "assign Map.empty kvs = assign Map.empty kvs'"
proof -
  have "map_of (rev kvs) = map_of (rev kvs')"
    using assms by (subst map_of_inject_set) (simp_all add: rev_map [symmetric])
  then show ?thesis by (simp add: assign_map_of)
qed

lemma flags_distinct: "distinct (map snd (spec_flag_order options))"
  by (simp add: spec_flag_order_def)

lemma falsy_flag_absent:
  assumes "(k, f) \<in> set (spec_flag_order options)" and "\<not> truthy (get options k)"
  shows "f \<notin> set (argsOptionsBuilder options)"
proof
  assume "f \<in> set (argsOptionsBuilder options)"
  then obtain k' where k': "(k', f) \<in> set (spec_flag_order options)" "truthy (get options k')"
    by (auto simp add: argsOptionsBuilder_table)
  from flags_distinct have "inj_on snd (set (spec_flag_order options))"
    by (simp add: distinct_map)
  from inj_onD [OF this, of "(k', f)" "(k, f)"] k'(1) assms(1) have "k' = k"
    by simp
  with k'(2) assms(2) show False by simp
qed

section \<open>No cleanup outside the UTF-8 capture of XML\<close>

text \<open>
  C9, as stated, fails: the cleanup pass is not idempotent. Every run drops two leading
  characters. On the clean text \<^verbatim>\<open><a/>\<close> one run gives \<^verbatim>\<open>/\<close> and a second run gives the
  empty text.
\<close>

theorem cleanup_idempotent_counterexample:
  "cleanup ''<a/>'' = Inr ''/'' \<and> cleanup ''/'' = Inr [] \<and> ''/'' \<noteq> []"
  by (simp add: cleanup_def substring_def char_at_def)

text \<open>
  C9, amended. A capture that is not an XML request, or that does not run on \<^verbatim>\<open>win32\<close>,
  never has the cleanup pass applied: what \<^verbatim>\<open>_spawn\<close> returns is the accumulated buffer,
  unchanged. The cleanup pass itself leaves a text unchanged only when the text is empty.
\<close>

theorem no_cleanup_unless_windows_xml:
  assumes "platform \<noteq> ''win32'' \<or> \<not> includes_elem args (Str ''--xml'')"
    and "xProcess w (fst (spawn platform w action args)) = Completed chunks"
  shows "snd (spawn platform w action args) = Output (concat chunks)
         \<and> ((cleanup t = Inr t) = (t = []))"
  using spawn_completed [OF assms(2)] assms(1) cleanup_fixed [of t] by auto

theorem no_cleanup_unless_windows_xml_witness:
  "snd (spawn ''linux'' (Wim (always (Completed [''<a'', ''/>''])) None) ''info''
          [Str ''--xml'', Str ''a.wim'']) = Output ''<a/>''
   \<and> cleanup [] = Inr [] \<and> cleanup ''<a/>'' \<noteq> Inr ''<a/>''"
  using no_cleanup_unless_windows_xml [of "''linux''" "[Str ''--xml'', Str ''a.wim'']"
      "Wim (always (Completed [''<a'', ''/>''])) None" "''info''" "[''<a'', ''/>'']" "[]"]
    no_cleanup_unless_windows_xml [of "''linux''" "[Str ''--xml'', Str ''a.wim'']"
      "Wim (always (Completed [''<a'', ''/>''])) None" "''info''" "[''<a'', ''/>'']" "''<a/>''"]
  by (simp add: spawn_request Wim_def always_def)

section \<open>The status of the external process\<close>

text \<open>
  C3. The code does not do what the claim says. \<^verbatim>\<open>_spawn\<close> returns what the primitive
  raised, and \<^verbatim>\<open>verify\<close>, \<^verbatim>\<open>info\<close> and \<^verbatim>\<open>dir\<close> test its \<^verbatim>\<open>code\<close> property only;
  \<^verbatim>\<open>capture\<close>, \<^verbatim>\<open>update\<close> and \<^verbatim>\<open>extract\<close> test nothing. When the process exits with
  status 1 and the primitive raises the string \<^verbatim>\<open>rc=1\<close>, \<^verbatim>\<open>verify\<close> returns normally,
  and so do \<^verbatim>\<open>capture\<close> and \<^verbatim>\<open>update\<close>; \<^verbatim>\<open>extract\<close> returns the raised string as an
  ordinary value. \<^verbatim>\<open>capture\<close> and \<^verbatim>\<open>update\<close> return normally as well when the primitive
  raises an error object with the code 1.
\<close>

theorem exit_status_not_thrown:
  "returned (verify ''linux'' (Wim (always (Failed [] (Raised ''rc=1''))) None) (Str ''a.wim''))
     = Inr ()
   \<and> returned (capture ''linux'' (Wim (always (Failed [] (Raised ''rc=1''))) None)
        (Str ''out.wim'') (Str ''src'') None) = Inr ()
   \<and> returned (snd (update ''linux'' (Wim (always (Failed [] (Raised ''rc=1''))) None)
        (Str ''a.wim'')
        (Some [''type'' \<mapsto> Str ''add'', ''input'' \<mapsto> Str ''a'', ''output'' \<mapsto> Str ''b''])
        None)) = Inr ()
   \<and> returned (snd (extract_op ''linux'' (Wim (always (Failed [] (Raised ''rc=1''))) None)
        (Str ''a.wim'') (Str ''/'') (Str ''out'') None)) = Inr (Caught (Raised ''rc=1''))
   \<and> returned (capture ''linux'' (Wim (always (Failed [] (ProcessError (Num 1) ''exit''))) None)
        (Str ''out.wim'') (Str ''src'') None) = Inr ()
   \<and> returned (snd (update ''linux'' (Wim (always (Failed [] (ProcessError (Num 1) ''exit''))) None)
        (Str ''a.wim'')
        (Some [''type'' \<mapsto> Str ''add'', ''input'' \<mapsto> Str ''a'', ''output'' \<mapsto> Str ''b''])
        None)) = Inr ()"
  by (simp add: verify_def capture_def update_def extract_op_def spawn_def Wim_def always_def
      get_def split_beta Let_def)

section \<open>Failures of the spawn\<close>

text \<open>
  C4, as stated, fails. When the binary is not found (code \<^verbatim>\<open>ENOENT\<close>), \<^verbatim>\<open>verify\<close> throws
  its own integrity error, which is not the original exception, and \<^verbatim>\<open>capture\<close> returns
  normally: the original exception is thrown to no caller.
\<close>

theorem spawn_failure_counterexample:
  "returned (verify ''linux''
       (Wim (always (Failed [] (ProcessError (Str ''ENOENT'') ''spawn wimlib-imagex ENOENT''))) None)
       (Str ''a.wim''))
     = Inl (Error ''Integrity of a.wim file seems compromised'')
   \<and> Error ''Integrity of a.wim file seems compromised''
       \<noteq> ProcessError (Str ''ENOENT'') ''spawn wimlib-imagex ENOENT''
   \<and> returned (capture ''linux''
       (Wim (always (Failed [] (ProcessError (Str ''ENOENT'') ''spawn wimlib-imagex ENOENT''))) None)
       (Str ''out.wim'') (Str ''src'') None) = Inr ()"
  by (simp add: verify_def capture_def spawn_def Wim_def always_def split_beta Let_def)

text \<open>
  C4, amended. A failure raised while invoking the external process is not rethrown:
  \<^verbatim>\<open>_spawn\<close> catches it and returns the original exception, unchanged, as its result value,
  and \<^verbatim>\<open>extract\<close> returns that value to its caller.
\<close>

theorem spawn_failure_returned:
  "(xProcess w (fst (spawn platform w action args)) = Failed chunks ex
      \<longrightarrow> snd (spawn platform w action args) = Caught ex)
   \<and> (xProcess w (hd (spawned (snd (extract_op platform w inputWim inputPath outputDir options))))
        = Failed chunks ex
      \<longrightarrow> returned (snd (extract_op platform w inputWim inputPath outputDir options))
            = Inr (Caught ex))"
  by (simp add: spawn_failed extract_op_unfold Let_def)

theorem spawn_failure_returned_witness:
  "snd (spawn ''linux'' (Wim (always (Failed [] (ProcessError (Str ''ENOENT'') ''spawn wimlib-imagex ENOENT''))) None)
         ''extract'' [Str ''a.wim'', Num 1, Str ''/''])
     = Caught (ProcessError (Str ''ENOENT'') ''spawn wimlib-imagex ENOENT'')
   \<and> returned (snd (extract_op ''linux''
         (Wim (always (Failed [] (ProcessError (Str ''ENOENT'') ''spawn wimlib-imagex ENOENT''))) None)
         (Str ''a.wim'') (Str ''/'') Undefined None))
     = Inr (Caught (ProcessError (Str ''ENOENT'') ''spawn wimlib-imagex ENOENT''))"
  using spawn_failure_returned [where
      w = "Wim (always (Failed [] (ProcessError (Str ''ENOENT'') ''spawn wimlib-imagex ENOENT''))) None"
      and platform = "''linux''" and action = "''extract''"
      and args = "[Str ''a.wim'', Num 1, Str ''/'']" and chunks = "[]"
      and ex = "ProcessError (Str ''ENOENT'') ''spawn wimlib-imagex ENOENT''"
      and inputWim = "Str ''a.wim''" and inputPath = "Str ''/''" and outputDir = Undefined
      and options = None]
  by (simp add: Wim_def always_def extract_op_unfold spawn_request)

section \<open>Retrieving the metadata\<close>




section \<open>The order of the flags\<close>

text \<open>
  C5. The argument builder returns the flags of the truthy options in the order of the
  table: destination directory, standard output, source list, compression, no ACLs, Unix
  data, rebuild, check, no globs. The result does not depend on the order in which the
  fields of the options object were assigned, and an option that is absent or
  \<^verbatim>\<open>false\<close> contributes no flag.
\<close>

theorem argsOptionsBuilder_fixed_order:
  "argsOptionsBuilder options =
     map snd (filter (\<lambda>kf. truthy (get options (fst kf))) (spec_flag_order options))
   \<and> (distinct (map fst kvs) \<and> distinct (map fst kvs') \<and> set kvs = set kvs'
      \<longrightarrow> argsOptionsBuilder (assign Map.empty kvs) = argsOptionsBuilder (assign Map.empty kvs'))
   \<and> ((k, f) \<in> set (spec_flag_order options)
        \<and> (options k = None \<or> options k = Some (Bool False))
      \<longrightarrow> f \<notin> set (argsOptionsBuilder options))"
proof -
  have "f \<notin> set (argsOptionsBuilder options)"
    if "(k, f) \<in> set (spec_flag_order options)"
      and "options k = None \<or> options k = Some (Bool False)"
  proof -
    from that(2) have "\<not> truthy (get options k)"
      by (auto simp add: get_def)
    with that(1) show ?thesis by (rule falsy_flag_absent)
  qed
  then show ?thesis
    using argsOptionsBuilder_table [of options] assign_order [of kvs kvs'] by simp
qed

theorem argsOptionsBuilder_fixed_order_witness:
  "argsOptionsBuilder (assign Map.empty
       [(''check'', Bool True), (''compress'', Str ''fast''), (''rebuild'', Bool False),
        (''destDir'', Str ''out'')])
     = [''--dest-dir=out'', ''--compress=fast'', ''--check'']
   \<and> argsOptionsBuilder (assign Map.empty
       [(''destDir'', Str ''out''), (''rebuild'', Bool False), (''compress'', Str ''fast''),
        (''check'', Bool True)])
     = [''--dest-dir=out'', ''--compress=fast'', ''--check'']
   \<and> ''--rebuild'' \<notin> set (argsOptionsBuilder (assign Map.empty
       [(''check'', Bool True), (''compress'', Str ''fast''), (''rebuild'', Bool False),
        (''destDir'', Str ''out'')]))"
proof -
  let ?kvs = "[(''check'', Bool True), (''compress'', Str ''fast''), (''rebuild'', Bool False),
        (''destDir'', Str ''out'')]"
  let ?kvs' = "[(''destDir'', Str ''out''), (''rebuild'', Bool False), (''compress'', Str ''fast''),
        (''check'', Bool True)]"
  note inst = argsOptionsBuilder_fixed_order [where options = "assign Map.empty ?kvs"
      and kvs = ?kvs and kvs' = ?kvs' and k = "''rebuild''" and f = "''--rebuild''"]
  have same: "set ?kvs = set ?kvs'"
    by (simp add: insert_commute)
  have keys: "distinct (map fst ?kvs) \<and> distinct (map fst ?kvs')"
    by simp
  have first: "argsOptionsBuilder (assign Map.empty ?kvs)
      = [''--dest-dir=out'', ''--compress=fast'', ''--check'']"
    using inst [THEN conjunct1] by (simp add: assign_def spec_flag_order_def get_def)
  have second: "argsOptionsBuilder (assign Map.empty ?kvs) = argsOptionsBuilder (assign Map.empty ?kvs')"
    using inst [THEN conjunct2, THEN conjunct1] same keys by blast
  have off: "(''rebuild'', ''--rebuild'') \<in> set (spec_flag_order (assign Map.empty ?kvs))
      \<and> assign Map.empty ?kvs ''rebuild'' = Some (Bool False)"
    by (simp add: assign_def spec_flag_order_def)
  have third: "''--rebuild'' \<notin> set (argsOptionsBuilder (assign Map.empty ?kvs))"
    using inst [THEN conjunct2, THEN conjunct2] off by blast
  from first second third show ?thesis by simp
qed

section \<open>Rendering the update command\<close>



section \<open>The output directory of extract\<close>

text \<open>
  C7. With a truthy \<^verbatim>\<open>outputDir\<close>, \<^verbatim>\<open>extract(inputWim, inputPath, outputDir, options)\<close> does
  exactly what \<^verbatim>\<open>extract(inputWim, inputPath, undefined, options')\<close> does, where \<^verbatim>\<open>options'\<close>
  is \<^verbatim>\<open>options\<close> with \<^verbatim>\<open>destDir\<close> set to \<^verbatim>\<open>outputDir\<close>: the same invocation, the same
  result, the same options afterwards. The image index of the invocation is 1 when
  \<^verbatim>\<open>options.image\<close> is unset or falsy.
\<close>

theorem extract_outputDir_folded:
  assumes "truthy outputDir"
  shows "extract_op platform w inputWim inputPath outputDir (Some options)
           = extract_op platform w inputWim inputPath Undefined
               (Some (options(''destDir'' \<mapsto> outputDir)))
         \<and> map argv (spawned (snd (extract_op platform w inputWim inputPath outputDir (Some options))))
           = [[Str ''extract'', inputWim,
               (if truthy (get options ''image'') then get options ''image'' else Num 1),
               inputPath]
              @ map Str (argsOptionsBuilder
                  ((if truthy (get options ''image'') then options
                    else options(''image'' \<mapsto> Num 1))(''destDir'' \<mapsto> outputDir)))]"
proof -
  have twist: "options(''image'' \<mapsto> Num 1, ''destDir'' \<mapsto> outputDir)
      = options(''destDir'' \<mapsto> outputDir, ''image'' \<mapsto> Num 1)"
    by (rule fun_upd_twist) simp
  have img: "get (options(''destDir'' \<mapsto> outputDir)) ''image'' = get options ''image''"
    by (simp add: get_def)
  have same: "extract_op platform w inputWim inputPath outputDir (Some options)
           = extract_op platform w inputWim inputPath Undefined
               (Some (options(''destDir'' \<mapsto> outputDir)))"
    using assms by (simp add: extract_op_unfold Let_def img twist)
  have args: "map argv (spawned (snd (extract_op platform w inputWim inputPath outputDir (Some options))))
           = [[Str ''extract'', inputWim,
               (if truthy (get options ''image'') then get options ''image'' else Num 1),
               inputPath]
              @ map Str (argsOptionsBuilder
                  ((if truthy (get options ''image'') then options
                    else options(''image'' \<mapsto> Num 1))(''destDir'' \<mapsto> outputDir)))]"
    using assms by (simp add: extract_op_unfold Let_def spawn_request get_def)
  from same args show ?thesis by (rule conjI)
qed

theorem extract_outputDir_folded_witness:
  "map argv (spawned (snd (extract_op ''linux'' (Wim (always (Completed [])) None)
       (Str ''a.wim'') (Str ''/'') (Str ''out'') (Some [''check'' \<mapsto> Bool True]))))
     = [[Str ''extract'', Str ''a.wim'', Num 1, Str ''/'', Str ''--dest-dir=out'', Str ''--check'']]
   \<and> extract_op ''linux'' (Wim (always (Completed [])) None)
       (Str ''a.wim'') (Str ''/'') (Str ''out'') (Some [''check'' \<mapsto> Bool True])
     = extract_op ''linux'' (Wim (always (Completed [])) None)
       (Str ''a.wim'') (Str ''/'') Undefined (Some [''check'' \<mapsto> Bool True, ''destDir'' \<mapsto> Str ''out''])"
proof -
  have t: "truthy (Str ''out'')" by simp
  note inst = extract_outputDir_folded [OF t, where platform = "''linux''"
      and w = "Wim (always (Completed [])) None" and inputWim = "Str ''a.wim''"
      and inputPath = "Str ''/''" and options = "[''check'' \<mapsto> Bool True]"]
  have flags: "argsOptionsBuilder [''check'' \<mapsto> Bool True, ''image'' \<mapsto> Num 1, ''destDir'' \<mapsto> Str ''out'']
      = [''--dest-dir=out'', ''--check'']"
    by (simp add: argsOptionsBuilder_pieces get_def)
  have a: "map argv (spawned (snd (extract_op ''linux'' (Wim (always (Completed [])) None)
       (Str ''a.wim'') (Str ''/'') (Str ''out'') (Some [''check'' \<mapsto> Bool True]))))
     = [[Str ''extract'', Str ''a.wim'', Num 1, Str ''/'', Str ''--dest-dir=out'', Str ''--check'']]"
    using inst [THEN conjunct2] by (simp add: get_def flags)
  from a inst [THEN conjunct1] show ?thesis by (rule conjI)
qed

section \<open>Writes to the options of the caller\<close>

text \<open>
  C10. \<^verbatim>\<open>extract\<close> and \<^verbatim>\<open>update\<close> write to the options object of the caller: \<^verbatim>\<open>extract\<close>
  stores a truthy \<^verbatim>\<open>outputDir\<close> in \<^verbatim>\<open>destDir\<close>, and both store 1 in \<^verbatim>\<open>image\<close> when it is
  unset or falsy, an explicit 0 included; the object then differs from what the caller
  passed. \<^verbatim>\<open>update\<close> does so even when it throws for its command.
\<close>

theorem options_mutated:
  "(truthy outputDir
      \<longrightarrow> fst (extract_op platform w inputWim inputPath outputDir (Some options)) ''destDir''
            = Some outputDir)
   \<and> (\<not> truthy (get options ''image'')
      \<longrightarrow> fst (extract_op platform w inputWim inputPath outputDir (Some options)) ''image''
            = Some (Num 1)
          \<and> fst (extract_op platform w inputWim inputPath outputDir (Some options)) \<noteq> options
          \<and> fst (update platform w inputWim command (Some options)) ''image'' = Some (Num 1)
          \<and> fst (update platform w inputWim command (Some options)) \<noteq> options)"
proof -
  have differ: "m \<noteq> options" if "\<not> truthy (get options ''image'')" and "m ''image'' = Some (Num 1)"
    for m :: jsobj
  proof
    assume "m = options"
    with that(2) have "get options ''image'' = Num 1" by (simp add: get_def)
    with that(1) show False by simp
  qed
  have e1: "fst (extract_op platform w inputWim inputPath outputDir (Some options)) ''destDir''
            = Some outputDir" if "truthy outputDir"
    using that by (simp add: extract_op_unfold Let_def)
  have e2: "fst (extract_op platform w inputWim inputPath outputDir (Some options)) ''image''
            = Some (Num 1)" if "\<not> truthy (get options ''image'')"
    using that by (simp add: extract_op_unfold Let_def)
  have u2: "fst (update platform w inputWim command (Some options)) ''image'' = Some (Num 1)"
    if "\<not> truthy (get options ''image'')"
    using that by (simp add: update_unfold Let_def split: option.splits)
  from e1 e2 u2 differ show ?thesis by blast
qed

theorem options_mutated_witness:
  "fst (extract_op ''linux'' (Wim (always (Completed [])) None) (Str ''a.wim'') (Str ''/'')
         (Str ''out'') (Some [''image'' \<mapsto> Num 0])) ''destDir'' = Some (Str ''out'')
   \<and> fst (extract_op ''linux'' (Wim (always (Completed [])) None) (Str ''a.wim'') (Str ''/'')
         (Str ''out'') (Some [''image'' \<mapsto> Num 0])) ''image'' = Some (Num 1)
   \<and> fst (update ''linux'' (Wim (always (Completed [])) None) (Str ''a.wim'') None
         (Some [''image'' \<mapsto> Num 0])) ''image'' = Some (Num 1)
   \<and> fst (update ''linux'' (Wim (always (Completed [])) None) (Str ''a.wim'') None
         (Some [''image'' \<mapsto> Num 0])) \<noteq> [''image'' \<mapsto> Num 0]"
  using options_mutated [where platform = "''linux''" and w = "Wim (always (Completed [])) None"
      and inputWim = "Str ''a.wim''" and inputPath = "Str ''/''" and outputDir = "Str ''out''"
      and options = "[''image'' \<mapsto> Num 0]" and command = None]
  by (simp add: get_def)

end
